theory Spec2Isabelle
  imports Main "HOL-Library.Word"
begin

section \<open>The KTX 1.0 texture loader of \<open>engine/assets/ktx_file.py\<close>\<close>

subsection \<open>Bytes, byte order and errors\<close>

type_synonym byte = "8 word"

text \<open>
  The loader reads every 32-bit quantity in the byte order of the machine it runs on
  (\<open>ctypes\<close> structure fields, and \<open>struct\<close> format \<open>"=I"\<close>). The byte order is
  therefore a parameter of the whole model.
\<close>

datatype byteorder = LittleEndian | BigEndian

text \<open>
  The exceptions the loader raises, under the names the specification gives them:
  \<^item> \<open>TruncatedFile\<close>: the \<open>IOError\<close> of the file size check in \<open>open\<close>;
  \<^item> \<open>InvalidMagic\<close>: the \<open>IOError\<close> of the header check in \<open>open\<close>;
  \<^item> \<open>UnsupportedPixelFormat\<close>: the first \<open>ValueError\<close> of \<open>header_format\<close>;
  \<^item> \<open>UnknownCompressionFormat\<close>: the second \<open>ValueError\<close> of \<open>header_format\<close>;
  \<^item> \<open>UnsupportedTextureLayout\<close>: the \<open>NotImplementedError\<close> of \<open>__init__\<close>;
  \<^item> \<open>TruncatedMipData\<close>: the \<open>struct.error\<close> of \<open>struct.unpack_from\<close>.
\<close>

datatype error =
    TruncatedFile
  | InvalidMagic
  | UnsupportedPixelFormat
  | UnknownCompressionFormat
  | UnsupportedTextureLayout
  | TruncatedMipData

text \<open>The unsigned value of a run of bytes in the given byte order.\<close>

fun uint_of :: "byteorder \<Rightarrow> byte list \<Rightarrow> nat" where
  "uint_of LittleEndian bs = foldr (\<lambda>b acc. unat b + 256 * acc) bs 0"
| "uint_of BigEndian bs = foldl (\<lambda>acc b. 256 * acc + unat b) 0 bs"

text \<open>
  \<open>struct.unpack_from("=I", data, offset)[0]\<close>: four bytes at \<open>offset\<close>, or
  \<open>struct.error\<close> (here \<open>None\<close>) when fewer than four bytes are left there.
\<close>

definition unpack_from_I :: "byteorder \<Rightarrow> byte list \<Rightarrow> nat \<Rightarrow> nat option" where
  "unpack_from_I bo data offset =
     (if offset + 4 \<le> length data then Some (uint_of bo (take 4 (drop offset data)))
      else None)"

subsection \<open>The target formats and the conversion table\<close>

text \<open>
  The identifiers of the \<open>vulkan\<close> package that the loader names. They are integer
  constants of an external library; the model keeps them apart by name.
\<close>

datatype vk_format =
    FORMAT_BC1_RGB_UNORM_BLOCK | FORMAT_BC1_RGB_SRGB_BLOCK
  | FORMAT_BC1_RGBA_UNORM_BLOCK | FORMAT_BC1_RGBA_SRGB_BLOCK
  | FORMAT_BC2_UNORM_BLOCK | FORMAT_BC2_SRGB_BLOCK
  | FORMAT_BC3_UNORM_BLOCK | FORMAT_BC3_SRGB_BLOCK
  | FORMAT_BC4_UNORM_BLOCK | FORMAT_BC4_SNORM_BLOCK
  | FORMAT_BC5_UNORM_BLOCK | FORMAT_BC5_SNORM_BLOCK
  | FORMAT_BC6H_UFLOAT_BLOCK | FORMAT_BC6H_SFLOAT_BLOCK
  | FORMAT_BC7_UNORM_BLOCK | FORMAT_BC7_SRGB_BLOCK

datatype vk_image_type = IMAGE_TYPE_1D | IMAGE_TYPE_2D | IMAGE_TYPE_3D

text \<open>
  A value of the table is either one identifier (an \<open>int\<close>) or a tuple of two; the
  default of the lookup, \<open>(None, None)\<close>, is a tuple as well.
\<close>

datatype table_entry =
    Single vk_format
  | Tuple2 "vk_format option" "vk_format option"

definition GL_TO_VK_FORMATS :: "(nat \<times> table_entry) list" where
  "GL_TO_VK_FORMATS =
    [(0x83F0, Tuple2 (Some FORMAT_BC1_RGB_UNORM_BLOCK) (Some FORMAT_BC1_RGB_SRGB_BLOCK)),
     (0x83F1, Tuple2 (Some FORMAT_BC1_RGBA_UNORM_BLOCK) (Some FORMAT_BC1_RGBA_SRGB_BLOCK)),
     (0x83F2, Tuple2 (Some FORMAT_BC2_UNORM_BLOCK) (Some FORMAT_BC2_SRGB_BLOCK)),
     (0x83F3, Tuple2 (Some FORMAT_BC3_UNORM_BLOCK) (Some FORMAT_BC3_SRGB_BLOCK)),
     (0x8DBB, Single FORMAT_BC4_UNORM_BLOCK),
     (0x8DBC, Single FORMAT_BC4_SNORM_BLOCK),
     (0x8DBD, Single FORMAT_BC5_UNORM_BLOCK),
     (0x8DBE, Single FORMAT_BC5_SNORM_BLOCK),
     (0x8E8F, Single FORMAT_BC6H_UFLOAT_BLOCK),
     (0x8E8E, Single FORMAT_BC6H_SFLOAT_BLOCK),
     (0x8E8C, Single FORMAT_BC7_UNORM_BLOCK),
     (0x8E8D, Single FORMAT_BC7_SRGB_BLOCK)]"

subsection \<open>The header\<close>

definition Ktx10HeaderData :: "byte list" where
  "Ktx10HeaderData =
     [0xAB, 0x4B, 0x54, 0x58, 0x20, 0x31, 0x31, 0xBB, 0x0D, 0x0A, 0x1A, 0x0A]"

record KtxHeader =
  ktx_id :: "byte list"
  endianness :: "32 word"
  gl_type :: "32 word"
  gl_type_size :: "32 word"
  gl_format :: "32 word"
  gl_internal_format :: "32 word"
  gl_base_internal_format :: "32 word"
  pixel_width :: "32 word"
  pixel_height :: "32 word"
  pixel_depth :: "32 word"
  number_of_array_elements :: "32 word"
  number_of_faces :: "32 word"
  number_of_mipmap_levels :: "32 word"
  bytes_of_key_value_data :: "32 word"

definition sizeof_KtxHeader :: nat where
  "sizeof_KtxHeader = 64"

definition c_uint32_at :: "byteorder \<Rightarrow> byte list \<Rightarrow> nat \<Rightarrow> 32 word" where
  "c_uint32_at bo data offset = of_nat (uint_of bo (take 4 (drop offset data)))"

text \<open>
  Modelled from the spec: \<open>bytes_to_cstruct\<close> is imported from the package's
  \<open>__init__\<close> module, which is not among the sources. The binary layout table of the
  specification gives the structure it fills: the 12 identity bytes at offset 0, then
  thirteen 4-byte unsigned fields at offsets 12 to 60, with no padding, in the byte
  order of the machine.
\<close>

definition bytes_to_cstruct :: "byteorder \<Rightarrow> byte list \<Rightarrow> KtxHeader" where
  "bytes_to_cstruct bo data =
     \<lparr> ktx_id = take 12 data,
       endianness = c_uint32_at bo data 12,
       gl_type = c_uint32_at bo data 16,
       gl_type_size = c_uint32_at bo data 20,
       gl_format = c_uint32_at bo data 24,
       gl_internal_format = c_uint32_at bo data 28,
       gl_base_internal_format = c_uint32_at bo data 32,
       pixel_width = c_uint32_at bo data 36,
       pixel_height = c_uint32_at bo data 40,
       pixel_depth = c_uint32_at bo data 44,
       number_of_array_elements = c_uint32_at bo data 48,
       number_of_faces = c_uint32_at bo data 52,
       number_of_mipmap_levels = c_uint32_at bo data 56,
       bytes_of_key_value_data = c_uint32_at bo data 60 \<rparr>"

subsection \<open>Target and format of a header\<close>

definition header_target :: "KtxHeader \<Rightarrow> vk_image_type" where
  "header_target header =
     (if pixel_height header = 0 then IMAGE_TYPE_1D
      else if pixel_depth header > 0 then IMAGE_TYPE_3D
      else IMAGE_TYPE_2D)"

definition header_format :: "KtxHeader \<Rightarrow> error + vk_format" where
  "header_format h =
     (let is_compressed = (gl_type h = 0 \<and> gl_type_size h = 1 \<and> gl_format h = 0) in
      if \<not> is_compressed then Inl UnsupportedPixelFormat
      else
        let formats = (case map_of GL_TO_VK_FORMATS (unat (gl_internal_format h)) of
                         Some entry \<Rightarrow> entry
                       | None \<Rightarrow> Tuple2 None None);
            fmt = (case formats of Single f \<Rightarrow> Some f | Tuple2 linear srgb \<Rightarrow> linear)
        in case fmt of
             None \<Rightarrow> Inl UnknownCompressionFormat
           | Some f \<Rightarrow> Inr f)"

subsection \<open>The texture and the mipmap loop\<close>

text \<open>
  \<open>MipmapData\<close> is the named tuple \<open>(offset, size, width, height)\<close>; the fields carry
  the prefix \<open>mip\<close> here, as \<open>size\<close> is a constant of HOL and \<open>width\<close> and
  \<open>height\<close> are fields of the texture too.
\<close>

record MipmapData =
  mip_offset :: nat
  mip_size :: nat
  mip_width :: nat
  mip_height :: nat

record KTXFile =
  file_name :: string
  width :: nat
  height :: nat
  depth :: nat
  mips_level :: nat
  array_element :: nat
  faces :: nat
  target :: vk_image_type
  format :: vk_format
  data :: "byte list"
  mipmaps :: "MipmapData list"

text \<open>The local variables of the loop of \<open>__init__\<close>, with the two lists it extends.\<close>

record loop_state =
  data_offset :: nat
  local_offset :: nat
  mip_extent_width :: nat
  mip_extent_height :: nat
  self_data :: "byte list"
  self_mipmaps :: "MipmapData list"

text \<open>
  The body of the loop after the length prefix has been read. The slice
  \<open>data[data_offset:data_offset+mipmap_size]\<close> is \<open>take\<close> after \<open>drop\<close>: Python
  slices stop at the end of the buffer and never raise.
\<close>

definition mip_step :: "byte list \<Rightarrow> nat \<Rightarrow> loop_state \<Rightarrow> loop_state" where
  "mip_step src mipmap_size st =
     (let off = data_offset st + 4 in
      \<lparr> data_offset = off + mipmap_size,
        local_offset = local_offset st + mipmap_size,
        mip_extent_width = mip_extent_width st div 2,
        mip_extent_height = mip_extent_height st div 2,
        self_data = self_data st @ take mipmap_size (drop off src),
        self_mipmaps = self_mipmaps st @
          [\<lparr> mip_offset = local_offset st, mip_size = mipmap_size,
             mip_width = mip_extent_width st, mip_height = mip_extent_height st \<rparr>] \<rparr>)"

text \<open>\<open>for i in range(n)\<close>: the loop variable is not used by the body.\<close>

primrec load_mips :: "byteorder \<Rightarrow> byte list \<Rightarrow> nat \<Rightarrow> loop_state \<Rightarrow> error + loop_state" where
  "load_mips bo src 0 st = Inr st"
| "load_mips bo src (Suc n) st =
     (case unpack_from_I bo src (data_offset st) of
        None \<Rightarrow> Inl TruncatedMipData
      | Some mipmap_size \<Rightarrow> load_mips bo src n (mip_step src mipmap_size st))"

definition loop_init :: "nat \<Rightarrow> nat \<Rightarrow> loop_state" where
  "loop_init w h =
     \<lparr> data_offset = 0, local_offset = 0, mip_extent_width = w, mip_extent_height = h,
       self_data = [], self_mipmaps = [] \<rparr>"

definition KTXFile_init :: "byteorder \<Rightarrow> string \<Rightarrow> KtxHeader \<Rightarrow> byte list \<Rightarrow> error + KTXFile" where
  "KTXFile_init bo fname header src =
     (let w = unat (pixel_width header);
          h = max (unat (pixel_height header)) 1;
          d = max (unat (pixel_depth header)) 1;
          mips = max (unat (number_of_mipmap_levels header)) 1;
          arr = max (unat (number_of_array_elements header)) 1;
          fcs = max (unat (number_of_faces header)) 1;
          tgt = header_target header
      in case header_format header of
           Inl e \<Rightarrow> Inl e
         | Inr fmt \<Rightarrow>
             if arr > 1 \<or> fcs > 1 then Inl UnsupportedTextureLayout
             else (case load_mips bo src mips (loop_init w h) of
                     Inl e \<Rightarrow> Inl e
                   | Inr st \<Rightarrow>
                       Inr \<lparr> file_name = fname, width = w, height = h, depth = d,
                             mips_level = mips, array_element = arr, faces = fcs,
                             target = tgt, format = fmt,
                             data = self_data st, mipmaps = self_mipmaps st \<rparr>))"

text \<open>
  \<open>KTXFile.open\<close>, from the content of the file on: reading the file is the caller's
  side of the model.
\<close>

definition KTXFile_open :: "byteorder \<Rightarrow> string \<Rightarrow> byte list \<Rightarrow> error + KTXFile" where
  "KTXFile_open bo path content =
     (if length content < sizeof_KtxHeader then Inl TruncatedFile
      else
        let header = bytes_to_cstruct bo content in
        if ktx_id header \<noteq> Ktx10HeaderData then Inl InvalidMagic
        else
          let offset = sizeof_KtxHeader + unat (bytes_of_key_value_data header)
          in KTXFile_init bo path header (drop offset content))"

text \<open>The sum of the sizes of the first \<open>i\<close> levels of a list.\<close>

definition sizes_upto :: "MipmapData list \<Rightarrow> nat \<Rightarrow> nat" where
  "sizes_upto ms i = sum_list (map mip_size (take i ms))"

subsection \<open>Example files\<close>

text \<open>
  Files for the examples below: the 12 identity bytes, the thirteen header fields in the
  given byte order (endianness, glType, glTypeSize, glFormat, glInternalFormat,
  glBaseInternalFormat, pixelWidth, pixelHeight, pixelDepth, numberOfArrayElements,
  numberOfFaces, numberOfMipmapLevels, bytesOfKeyValueData), a key-value block, and the
  mip levels, each a length and the payload bytes that follow it (which may be fewer
  than the length announces).

  The scenario files are those of the specification: a BC4 texture (\<open>0x8DBB\<close>) with
  no key-value data and two levels of 8 and 4 bytes; the same file cut after 6 bytes of
  level 0; and a file of one level that announces 8 bytes and holds 6.
\<close>

fun c_uint32_bytes :: "byteorder \<Rightarrow> nat \<Rightarrow> byte list" where
  "c_uint32_bytes LittleEndian n =
     [of_nat n, of_nat (n div 256), of_nat (n div 65536), of_nat (n div 16777216)]"
| "c_uint32_bytes BigEndian n =
     [of_nat (n div 16777216), of_nat (n div 65536), of_nat (n div 256), of_nat n]"

definition ktx_file :: "byteorder \<Rightarrow> nat list \<Rightarrow> byte list \<Rightarrow> (nat \<times> byte list) list \<Rightarrow> byte list" where
  "ktx_file bo hdr_fields key_values levels =
     Ktx10HeaderData @ concat (map (c_uint32_bytes bo) hdr_fields) @ key_values @
     concat (map (\<lambda>(n, payload). c_uint32_bytes bo n @ payload) levels)"

definition scenario_fields :: "nat \<Rightarrow> nat list" where
  "scenario_fields mips = [0x04030201, 0, 1, 0, 0x8DBB, 0x1903, 4, 4, 0, 0, 1, mips, 0]"

definition scenario_full :: "byteorder \<Rightarrow> byte list" where
  "scenario_full bo =
     ktx_file bo (scenario_fields 2) [] [(8, [1, 2, 3, 4, 5, 6, 7, 8]), (4, [9, 10, 11, 12])]"

definition scenario_truncated :: "byteorder \<Rightarrow> byte list" where
  "scenario_truncated bo = ktx_file bo (scenario_fields 2) [] [(8, [1, 2, 3, 4, 5, 6])]"

definition short_last_level :: "byteorder \<Rightarrow> byte list" where
  "short_last_level bo = ktx_file bo (scenario_fields 1) [] [(8, [1, 2, 3, 4, 5, 6])]"

text \<open>Two headers: an uncompressed texture array, and a compressed cube map.\<close>

definition uncompressed_array_header :: KtxHeader where
  "uncompressed_array_header =
     \<lparr> ktx_id = Ktx10HeaderData, endianness = 0x04030201,
       gl_type = 0x1401, gl_type_size = 1, gl_format = 0x1908,
       gl_internal_format = 0x8058, gl_base_internal_format = 0x1908,
       pixel_width = 4, pixel_height = 4, pixel_depth = 0,
       number_of_array_elements = 2, number_of_faces = 1,
       number_of_mipmap_levels = 1, bytes_of_key_value_data = 0 \<rparr>"

definition cube_map_header :: KtxHeader where
  "cube_map_header =
     \<lparr> ktx_id = Ktx10HeaderData, endianness = 0x04030201,
       gl_type = 0, gl_type_size = 1, gl_format = 0,
       gl_internal_format = 0x8DBB, gl_base_internal_format = 0x1903,
       pixel_width = 4, pixel_height = 4, pixel_depth = 0,
       number_of_array_elements = 0, number_of_faces = 2,
       number_of_mipmap_levels = 1, bytes_of_key_value_data = 0 \<rparr>"

text \<open>The textures that two of the example files decode to.\<close>

definition short_texture :: KTXFile where
  "short_texture =
     \<lparr> file_name = ''a.ktx'', width = 4, height = 4, depth = 1, mips_level = 1,
       array_element = 1, faces = 1, target = IMAGE_TYPE_2D,
       format = FORMAT_BC4_UNORM_BLOCK,
       data = [1, 2, 3, 4, 5, 6],
       mipmaps = [\<lparr> mip_offset = 0, mip_size = 8, mip_width = 4, mip_height = 4 \<rparr>] \<rparr>"

definition scenario_texture :: KTXFile where
  "scenario_texture =
     \<lparr> file_name = ''a.ktx'', width = 4, height = 4, depth = 1, mips_level = 2,
       array_element = 1, faces = 1, target = IMAGE_TYPE_2D,
       format = FORMAT_BC4_UNORM_BLOCK,
       data = [1, 2, 3, 4, 5, 6, 7, 8, 9, 10, 11, 12],
       mipmaps = [\<lparr> mip_offset = 0, mip_size = 8, mip_width = 4, mip_height = 4 \<rparr>,
                  \<lparr> mip_offset = 8, mip_size = 4, mip_width = 2, mip_height = 2 \<rparr>] \<rparr>"

text \<open>A chain of three levels whose extents reach 0, and the texture it decodes to.\<close>

definition small_chain :: "byteorder \<Rightarrow> byte list" where
  "small_chain bo =
     ktx_file bo [0x04030201, 0, 1, 0, 0x8DBB, 0x1903, 2, 1, 0, 0, 1, 3, 0] []
       [(2, [1, 2]), (1, [3]), (0, [])]"

definition small_chain_texture :: KTXFile where
  "small_chain_texture =
     \<lparr> file_name = ''a.ktx'', width = 2, height = 1, depth = 1, mips_level = 3,
       array_element = 1, faces = 1, target = IMAGE_TYPE_2D,
       format = FORMAT_BC4_UNORM_BLOCK,
       data = [1, 2, 3],
       mipmaps = [\<lparr> mip_offset = 0, mip_size = 2, mip_width = 2, mip_height = 1 \<rparr>,
                  \<lparr> mip_offset = 2, mip_size = 1, mip_width = 1, mip_height = 0 \<rparr>,
                  \<lparr> mip_offset = 3, mip_size = 0, mip_width = 0, mip_height = 0 \<rparr>] \<rparr>"

text \<open>
  The header of a one-dimensional texture and the texture it gives; a header of the
  S3TC RGB format; a file of width 0; a file with a key-value block of 4 bytes.
\<close>

definition line_header :: KtxHeader where
  "line_header =
     \<lparr> ktx_id = Ktx10HeaderData, endianness = 0x04030201,
       gl_type = 0, gl_type_size = 1, gl_format = 0,
       gl_internal_format = 0x8DBB, gl_base_internal_format = 0x1903,
       pixel_width = 8, pixel_height = 0, pixel_depth = 0,
       number_of_array_elements = 0, number_of_faces = 1,
       number_of_mipmap_levels = 0, bytes_of_key_value_data = 0 \<rparr>"

definition line_texture :: KTXFile where
  "line_texture =
     \<lparr> file_name = ''a.ktx'', width = 8, height = 1, depth = 1, mips_level = 1,
       array_element = 1, faces = 1, target = IMAGE_TYPE_1D,
       format = FORMAT_BC4_UNORM_BLOCK,
       data = [7],
       mipmaps = [\<lparr> mip_offset = 0, mip_size = 1, mip_width = 8, mip_height = 1 \<rparr>] \<rparr>"

definition s3tc_header :: KtxHeader where
  "s3tc_header =
     \<lparr> ktx_id = Ktx10HeaderData, endianness = 0x04030201,
       gl_type = 0, gl_type_size = 1, gl_format = 0,
       gl_internal_format = 0x83F0, gl_base_internal_format = 0x1907,
       pixel_width = 4, pixel_height = 4, pixel_depth = 0,
       number_of_array_elements = 0, number_of_faces = 1,
       number_of_mipmap_levels = 1, bytes_of_key_value_data = 0 \<rparr>"

definition zero_width :: "byteorder \<Rightarrow> byte list" where
  "zero_width bo =
     ktx_file bo [0x04030201, 0, 1, 0, 0x8DBB, 0x1903, 0, 4, 0, 0, 1, 2, 0] []
       [(1, [5]), (1, [6])]"

definition zero_width_texture :: KTXFile where
  "zero_width_texture =
     \<lparr> file_name = ''a.ktx'', width = 0, height = 4, depth = 1, mips_level = 2,
       array_element = 1, faces = 1, target = IMAGE_TYPE_2D,
       format = FORMAT_BC4_UNORM_BLOCK,
       data = [5, 6],
       mipmaps = [\<lparr> mip_offset = 0, mip_size = 1, mip_width = 0, mip_height = 4 \<rparr>,
                  \<lparr> mip_offset = 1, mip_size = 1, mip_width = 0, mip_height = 2 \<rparr>] \<rparr>"

definition with_key_values :: "byteorder \<Rightarrow> byte list \<Rightarrow> byte list" where
  "with_key_values bo key_values =
     ktx_file bo [0x04030201, 0, 1, 0, 0x8DBB, 0x1903, 4, 4, 0, 0, 1, 1, 4] key_values
       [(2, [1, 2])]"

definition key_values_texture :: KTXFile where
  "key_values_texture =
     \<lparr> file_name = ''a.ktx'', width = 4, height = 4, depth = 1, mips_level = 1,
       array_element = 1, faces = 1, target = IMAGE_TYPE_2D,
       format = FORMAT_BC4_UNORM_BLOCK,
       data = [1, 2],
       mipmaps = [\<lparr> mip_offset = 0, mip_size = 2, mip_width = 4, mip_height = 4 \<rparr>] \<rparr>"

section \<open>Properties of the loader\<close>

subsection \<open>The mipmap loop\<close>

lemma load_mips_invariant:
  assumes "load_mips bo src n st = Inr st'"
    and "P st"
    and "\<And>s sz. P s \<Longrightarrow> unpack_from_I bo src (data_offset s) = Some sz \<Longrightarrow> P (mip_step src sz s)"
  shows "P st'"
  using assms(1,2)
proof (induction n arbitrary: st)
  case 0
  then show ?case by simp
next
  case (Suc n)
  from Suc.prems(1) obtain sz where sz: "unpack_from_I bo src (data_offset st) = Some sz"
    and rest: "load_mips bo src n (mip_step src sz st) = Inr st'"
    by (auto split: option.splits)
  from assms(3) [OF Suc.prems(2) sz] have "P (mip_step src sz st)" .
  with rest show ?case by (rule Suc.IH)
qed

lemma load_mips_error:
  "load_mips bo src n st = Inl e \<Longrightarrow> e = TruncatedMipData"
  by (induction n arbitrary: st) (auto split: option.splits)

lemma load_mips_add:
  "load_mips bo src (k + m) st =
     (case load_mips bo src k st of Inl e \<Rightarrow> Inl e | Inr s \<Rightarrow> load_mips bo src m s)"
  by (induction k arbitrary: st) (auto split: option.splits)

lemma load_mips_length:
  "load_mips bo src n st = Inr st' \<Longrightarrow>
     length (self_mipmaps st') = length (self_mipmaps st) + n"
  by (induction n arbitrary: st) (auto split: option.splits simp: mip_step_def Let_def)

lemma load_mips_nth_old:
  "load_mips bo src n st = Inr st' \<Longrightarrow> i < length (self_mipmaps st) \<Longrightarrow>
     self_mipmaps st' ! i = self_mipmaps st ! i"
proof (induction n arbitrary: st)
  case 0
  then show ?case by simp
next
  case (Suc n)
  from Suc.prems(1) obtain sz where
    rest: "load_mips bo src n (mip_step src sz st) = Inr st'"
    by (auto split: option.splits)
  have "i < length (self_mipmaps (mip_step src sz st))"
    using Suc.prems(2) by (simp add: mip_step_def Let_def)
  from Suc.IH [OF rest this] show ?case
    using Suc.prems(2) by (simp add: mip_step_def Let_def nth_append)
qed

lemma load_mips_nth_new:
  "load_mips bo src n st = Inr st' \<Longrightarrow> i < n \<Longrightarrow>
     mip_width (self_mipmaps st' ! (length (self_mipmaps st) + i)) = mip_extent_width st div 2 ^ i \<and>
     mip_height (self_mipmaps st' ! (length (self_mipmaps st) + i)) = mip_extent_height st div 2 ^ i"
proof (induction n arbitrary: st i)
  case 0
  then show ?case by simp
next
  case (Suc n)
  from Suc.prems(1) obtain sz where
    rest: "load_mips bo src n (mip_step src sz st) = Inr st'"
    by (auto split: option.splits)
  let ?s = "mip_step src sz st"
  have len: "length (self_mipmaps ?s) = Suc (length (self_mipmaps st))"
    by (simp add: mip_step_def Let_def)
  show ?case
  proof (cases i)
    case 0
    have "self_mipmaps st' ! length (self_mipmaps st) = self_mipmaps ?s ! length (self_mipmaps st)"
      using load_mips_nth_old [OF rest] len by simp
    then show ?thesis using 0 by (simp add: mip_step_def Let_def)
  next
    case (Suc j)
    with Suc.prems(2) have "j < n" by simp
    from Suc.IH [OF rest this] show ?thesis
      using Suc len by (simp add: mip_step_def Let_def div_mult2_eq)
  qed
qed

lemma load_mips_packed:
  assumes "load_mips bo src n st = Inr st'"
    and "local_offset st = sum_list (map mip_size (self_mipmaps st))"
    and "\<forall>i<length (self_mipmaps st). mip_offset (self_mipmaps st ! i) = sizes_upto (self_mipmaps st) i"
  shows "local_offset st' = sum_list (map mip_size (self_mipmaps st')) \<and>
         (\<forall>i<length (self_mipmaps st'). mip_offset (self_mipmaps st' ! i) = sizes_upto (self_mipmaps st') i)"
proof (rule load_mips_invariant [OF assms(1), where P = "\<lambda>s. local_offset s = sum_list (map mip_size (self_mipmaps s)) \<and>
         (\<forall>i<length (self_mipmaps s). mip_offset (self_mipmaps s ! i) = sizes_upto (self_mipmaps s) i)"])
  show "local_offset st = sum_list (map mip_size (self_mipmaps st)) \<and>
    (\<forall>i<length (self_mipmaps st). mip_offset (self_mipmaps st ! i) = sizes_upto (self_mipmaps st) i)"
    using assms(2,3) by simp
next
  fix s :: loop_state and sz :: nat
  assume inv: "local_offset s = sum_list (map mip_size (self_mipmaps s)) \<and>
    (\<forall>i<length (self_mipmaps s). mip_offset (self_mipmaps s ! i) = sizes_upto (self_mipmaps s) i)"
  show "local_offset (mip_step src sz s) = sum_list (map mip_size (self_mipmaps (mip_step src sz s))) \<and>
    (\<forall>i<length (self_mipmaps (mip_step src sz s)).
       mip_offset (self_mipmaps (mip_step src sz s) ! i) = sizes_upto (self_mipmaps (mip_step src sz s)) i)"
    using inv by (auto simp: mip_step_def Let_def nth_append sizes_upto_def less_Suc_eq)
qed

lemma load_mips_cursor:
  "load_mips bo src n st = Inr st' \<Longrightarrow>
     data_offset st' + local_offset st = data_offset st + 4 * n + local_offset st'"
proof (induction n arbitrary: st)
  case 0
  then show ?case by simp
next
  case (Suc n)
  from Suc.prems obtain sz where
    rest: "load_mips bo src n (mip_step src sz st) = Inr st'"
    by (auto split: option.splits)
  from Suc.IH [OF rest] show ?case
    by (simp add: mip_step_def Let_def)
qed

lemma bytes_to_cstruct_take:
  "bytes_to_cstruct bo (take 64 content) = bytes_to_cstruct bo content"
  by (simp add: bytes_to_cstruct_def c_uint32_at_def drop_take)

lemma KTXFile_open_Inr:
  assumes "KTXFile_open bo path content = Inr t"
  shows "sizeof_KtxHeader \<le> length content \<and>
         ktx_id (bytes_to_cstruct bo content) = Ktx10HeaderData \<and>
         KTXFile_init bo path (bytes_to_cstruct bo content)
           (drop (sizeof_KtxHeader + unat (bytes_of_key_value_data (bytes_to_cstruct bo content))) content) = Inr t"
  using assms by (auto simp: KTXFile_open_def Let_def split: if_splits)

lemma KTXFile_init_Inr:
  assumes "KTXFile_init bo fname h src = Inr t"
  shows "\<exists>st fmt. header_format h = Inr fmt \<and>
           unat (number_of_array_elements h) \<le> 1 \<and> unat (number_of_faces h) \<le> 1 \<and>
           load_mips bo src (max (unat (number_of_mipmap_levels h)) 1)
             (loop_init (unat (pixel_width h)) (max (unat (pixel_height h)) 1)) = Inr st \<and>
           t = \<lparr> file_name = fname, width = unat (pixel_width h),
                 height = max (unat (pixel_height h)) 1, depth = max (unat (pixel_depth h)) 1,
                 mips_level = max (unat (number_of_mipmap_levels h)) 1,
                 array_element = max (unat (number_of_array_elements h)) 1,
                 faces = max (unat (number_of_faces h)) 1,
                 target = header_target h, format = fmt,
                 data = self_data st, mipmaps = self_mipmaps st \<rparr>"
  using assms by (auto simp: KTXFile_init_def Let_def split: sum.splits if_splits)

lemma load_mips_file_order:
  assumes "load_mips bo src n st = Inr st'"
    and "data_offset st = 4 * length (self_mipmaps st) + sum_list (map mip_size (self_mipmaps st))"
    and "\<forall>i<length (self_mipmaps st).
           unpack_from_I bo src (4 * i + sum_list (map mip_size (take i (self_mipmaps st))))
             = Some (mip_size (self_mipmaps st ! i))"
  shows "\<forall>i<length (self_mipmaps st').
           unpack_from_I bo src (4 * i + sum_list (map mip_size (take i (self_mipmaps st'))))
             = Some (mip_size (self_mipmaps st' ! i))"
proof -
  let ?P = "\<lambda>s::loop_state.
     data_offset s = 4 * length (self_mipmaps s) + sum_list (map mip_size (self_mipmaps s)) \<and>
     (\<forall>i<length (self_mipmaps s).
        unpack_from_I bo src (4 * i + sum_list (map mip_size (take i (self_mipmaps s))))
          = Some (mip_size (self_mipmaps s ! i)))"
  have "?P st'"
  proof (rule load_mips_invariant [OF assms(1), where P = ?P])
    show "?P st" using assms(2,3) by simp
  next
    fix s :: loop_state and sz :: nat
    assume "?P s" and "unpack_from_I bo src (data_offset s) = Some sz"
    then show "?P (mip_step src sz s)"
      by (auto simp: mip_step_def Let_def nth_append less_Suc_eq)
  qed
  then show ?thesis by simp
qed

lemma load_mips_data_length:
  assumes "load_mips bo src n st = Inr st'"
    and "data_offset st \<le> length src" and "length (self_data st) = local_offset st"
  shows "if data_offset st' \<le> length src then length (self_data st') = local_offset st'
         else length (self_data st') < local_offset st'"
proof (rule load_mips_invariant [OF assms(1),
         where P = "\<lambda>s. if data_offset s \<le> length src then length (self_data s) = local_offset s
                         else length (self_data s) < local_offset s"])
  show "if data_offset st \<le> length src then length (self_data st) = local_offset st
        else length (self_data st) < local_offset st"
    using assms(2,3) by simp
next
  fix s :: loop_state and sz :: nat
  assume inv: "if data_offset s \<le> length src then length (self_data s) = local_offset s
               else length (self_data s) < local_offset s"
    and rd: "unpack_from_I bo src (data_offset s) = Some sz"
  from rd have "data_offset s + 4 \<le> length src"
    by (simp add: unpack_from_I_def split: if_splits)
  with inv show "if data_offset (mip_step src sz s) \<le> length src
        then length (self_data (mip_step src sz s)) = local_offset (mip_step src sz s)
        else length (self_data (mip_step src sz s)) < local_offset (mip_step src sz s)"
    by (auto simp: mip_step_def Let_def)
qed

subsection \<open>Evaluating the examples\<close>

lemma load_mips_numeral:
  "load_mips bo src (numeral k) st =
     (case unpack_from_I bo src (data_offset st) of
        None \<Rightarrow> Inl TruncatedMipData
      | Some mipmap_size \<Rightarrow> load_mips bo src (pred_numeral k) (mip_step src mipmap_size st))"
  by (simp add: numeral_eq_Suc)

lemmas eval_defs = ktx_file_def scenario_fields_def KTXFile_open_def sizeof_KtxHeader_def Ktx10HeaderData_def bytes_to_cstruct_def c_uint32_at_def KTXFile_init_def header_format_def header_target_def GL_TO_VK_FORMATS_def unpack_from_I_def mip_step_def loop_init_def Let_def load_mips_numeral

lemma scenario_full_decodes:
  "KTXFile_open bo path (scenario_full bo) =
     Inr \<lparr> file_name = path, width = 4, height = 4, depth = 1, mips_level = 2,
           array_element = 1, faces = 1, target = IMAGE_TYPE_2D,
           format = FORMAT_BC4_UNORM_BLOCK,
           data = [1, 2, 3, 4, 5, 6, 7, 8, 9, 10, 11, 12],
           mipmaps = [\<lparr> mip_offset = 0, mip_size = 8, mip_width = 4, mip_height = 4 \<rparr>,
                      \<lparr> mip_offset = 8, mip_size = 4, mip_width = 2, mip_height = 2 \<rparr>] \<rparr>"
  by (cases bo) (simp_all add: scenario_full_def eval_defs)

lemma scenario_truncated_fails:
  "KTXFile_open bo path (scenario_truncated bo) = Inl TruncatedMipData"
  by (cases bo) (simp_all add: scenario_truncated_def eval_defs)

lemma short_last_level_decodes:
  "KTXFile_open bo path (short_last_level bo) =
     Inr \<lparr> file_name = path, width = 4, height = 4, depth = 1, mips_level = 1,
           array_element = 1, faces = 1, target = IMAGE_TYPE_2D,
           format = FORMAT_BC4_UNORM_BLOCK,
           data = [1, 2, 3, 4, 5, 6],
           mipmaps = [\<lparr> mip_offset = 0, mip_size = 8, mip_width = 4, mip_height = 4 \<rparr>] \<rparr>"
  by (cases bo) (simp_all add: short_last_level_def eval_defs)

lemma zeros_not_magic:
  assumes "0 < n"
  shows "take 12 (replicate n (0 :: byte)) \<noteq> Ktx10HeaderData"
proof
  assume "take 12 (replicate n (0 :: byte)) = Ktx10HeaderData"
  then have "hd (take 12 (replicate n (0 :: byte))) = hd Ktx10HeaderData"
    by simp
  with assms show False
    by (simp add: Ktx10HeaderData_def)
qed

lemma KTXFile_init_loop:
  assumes "header_format h = Inr f"
    and "unat (number_of_array_elements h) \<le> 1" and "unat (number_of_faces h) \<le> 1"
  shows "KTXFile_init bo fname h src =
     (case load_mips bo src (max (unat (number_of_mipmap_levels h)) 1)
             (loop_init (unat (pixel_width h)) (max (unat (pixel_height h)) 1)) of
        Inl e \<Rightarrow> Inl e
      | Inr st \<Rightarrow>
          Inr \<lparr> file_name = fname, width = unat (pixel_width h),
                height = max (unat (pixel_height h)) 1, depth = max (unat (pixel_depth h)) 1,
                mips_level = max (unat (number_of_mipmap_levels h)) 1,
                array_element = max (unat (number_of_array_elements h)) 1,
                faces = max (unat (number_of_faces h)) 1,
                target = header_target h, format = f,
                data = self_data st, mipmaps = self_mipmaps st \<rparr>)"
proof -
  have "\<not> (1 < max (unat (number_of_array_elements h)) 1 \<or> 1 < max (unat (number_of_faces h)) 1)"
    using assms(2,3) by simp
  then show ?thesis
    unfolding KTXFile_init_def Let_def by (simp only: assms(1) sum.case if_False)
qed

lemma load_mips_prefix_past_end:
  assumes "load_mips bo src k st = Inr s" and "length src < data_offset s + 4"
  shows "load_mips bo src (k + Suc m) st = Inl TruncatedMipData"
proof -
  have "load_mips bo src (Suc m) s = Inl TruncatedMipData"
    using assms(2) by (simp add: unpack_from_I_def)
  then show ?thesis
    unfolding load_mips_add [of bo src k "Suc m" st] using assms(1) by simp
qed

lemma load_mips_payload_past_end:
  assumes "load_mips bo src k st = Inr s"
    and "unpack_from_I bo src (data_offset s) = Some sz"
    and "length src < data_offset s + 4 + sz"
  shows "load_mips bo src (k + Suc (Suc m)) st = Inl TruncatedMipData"
proof -
  have "data_offset (mip_step src sz s) = data_offset s + 4 + sz"
    by (simp add: mip_step_def Let_def)
  with assms(3) have "unpack_from_I bo src (data_offset (mip_step src sz s)) = None"
    by (simp add: unpack_from_I_def)
  with assms(2) have "load_mips bo src (Suc (Suc m)) s = Inl TruncatedMipData"
    by simp
  then show ?thesis
    unfolding load_mips_add [of bo src k "Suc (Suc m)" st] using assms(1) by simp
qed

lemma load_mips_truncated:
  assumes k: "k < n"
    and reach: "load_mips bo src k st0 = Inr st"
    and short: "length src < data_offset st + 4 \<or>
                (Suc k < n \<and>
                 (\<exists>sz. unpack_from_I bo src (data_offset st) = Some sz \<and>
                       length src < data_offset st + 4 + sz))"
  shows "load_mips bo src n st0 = Inl TruncatedMipData"
  using short
proof
  assume past: "length src < data_offset st + 4"
  from k have n: "n = k + Suc (n - Suc k)" by simp
  show ?thesis
    by (subst n) (rule load_mips_prefix_past_end [OF reach past])
next
  assume "Suc k < n \<and> (\<exists>sz. unpack_from_I bo src (data_offset st) = Some sz \<and>
                     length src < data_offset st + 4 + sz)"
  then obtain sz where lt: "Suc k < n"
    and rd: "unpack_from_I bo src (data_offset st) = Some sz"
    and past: "length src < data_offset st + 4 + sz"
    by blast
  from lt have n: "n = k + Suc (Suc (n - Suc (Suc k)))" by simp
  show ?thesis
    by (subst n) (rule load_mips_payload_past_end [OF reach rd past])
qed

lemma KTXFile_open_loop:
  assumes "KTXFile_open bo path content = Inr t"
  shows "\<exists>st. load_mips bo
                (drop (sizeof_KtxHeader +
                       unat (bytes_of_key_value_data (bytes_to_cstruct bo content))) content)
                (max (unat (number_of_mipmap_levels (bytes_to_cstruct bo content))) 1)
                (loop_init (unat (pixel_width (bytes_to_cstruct bo content)))
                           (max (unat (pixel_height (bytes_to_cstruct bo content))) 1)) = Inr st \<and>
              data t = self_data st \<and> mipmaps t = self_mipmaps st \<and>
              mips_level t = max (unat (number_of_mipmap_levels (bytes_to_cstruct bo content))) 1 \<and>
              width t = unat (pixel_width (bytes_to_cstruct bo content)) \<and>
              height t = max (unat (pixel_height (bytes_to_cstruct bo content))) 1"
proof -
  from KTXFile_open_Inr [OF assms]
  have "KTXFile_init bo path (bytes_to_cstruct bo content)
          (drop (sizeof_KtxHeader +
                 unat (bytes_of_key_value_data (bytes_to_cstruct bo content))) content) = Inr t"
    by simp
  from KTXFile_init_Inr [OF this] show ?thesis
    by auto
qed

lemma loop_init_simps:
  "data_offset (loop_init w h) = 0" "local_offset (loop_init w h) = 0"
  "mip_extent_width (loop_init w h) = w" "mip_extent_height (loop_init w h) = h"
  "self_data (loop_init w h) = []" "self_mipmaps (loop_init w h) = []"
  by (simp_all add: loop_init_def)

lemma small_chain_decodes:
  "KTXFile_open bo ''a.ktx'' (small_chain bo) = Inr small_chain_texture"
  by (cases bo) (simp_all add: small_chain_def small_chain_texture_def eval_defs)

lemma div_twice_pow:
  "(a :: nat) div (2 * 2 ^ j) = a div 2 ^ j div 2"
proof -
  have "a div (2 * 2 ^ j) = a div (2 ^ j * 2)"
    by (simp only: mult.commute)
  also have "\<dots> = a div 2 ^ j div 2"
    by (rule div_mult2_eq)
  finally show ?thesis .
qed

lemma zero_width_decodes:
  "KTXFile_open bo ''a.ktx'' (zero_width bo) = Inr zero_width_texture"
  by (cases bo) (simp_all add: zero_width_def zero_width_texture_def eval_defs)

section \<open>The claims\<close>

subsection \<open>C3: the identity bytes\<close>

text \<open>
  C3, as stated: every file whose first 12 bytes differ from the identity constant fails
  with \<open>InvalidMagic\<close>, whatever its length. This is false for a file shorter than the
  header: \<open>open\<close> checks the length of the file first. Twelve zero bytes differ from
  the constant and fail with \<open>TruncatedFile\<close>.
\<close>

theorem invalid_magic_short_file_counterexample:
  "take 12 (replicate 12 (0 :: byte)) \<noteq> Ktx10HeaderData \<and>
   KTXFile_open LittleEndian ''a.ktx'' (replicate 12 0) = Inl TruncatedFile"
proof
  show "take 12 (replicate 12 (0 :: byte)) \<noteq> Ktx10HeaderData"
    by (rule zeros_not_magic) simp
  show "KTXFile_open LittleEndian ''a.ktx'' (replicate 12 0) = Inl TruncatedFile"
    by (simp add: KTXFile_open_def sizeof_KtxHeader_def)
qed

text \<open>
  C3, amended: every file whose first 12 bytes differ from
  \<open>AB 4B 54 58 20 31 31 BB 0D 0A 1A 0A\<close> fails, in either byte order and whatever
  the rest of the file holds: with \<open>InvalidMagic\<close> when it has at least 64 bytes (the
  size of the header), and with \<open>TruncatedFile\<close> when it is shorter.
\<close>

theorem invalid_magic:
  assumes "take 12 content \<noteq> Ktx10HeaderData"
  shows "KTXFile_open bo path content =
           (if length content < sizeof_KtxHeader then Inl TruncatedFile else Inl InvalidMagic)"
  using assms by (simp add: KTXFile_open_def bytes_to_cstruct_def Let_def)

theorem invalid_magic_witness:
  "take 12 (replicate 64 (0 :: byte)) \<noteq> Ktx10HeaderData \<and>
   \<not> length (replicate 64 (0 :: byte)) < sizeof_KtxHeader \<and>
   KTXFile_open BigEndian ''a.ktx'' (replicate 64 0) = Inl InvalidMagic"
proof -
  have len: "\<not> length (replicate 64 (0 :: byte)) < sizeof_KtxHeader"
    by (simp add: sizeof_KtxHeader_def)
  have ne: "take 12 (replicate 64 (0 :: byte)) \<noteq> Ktx10HeaderData"
    by (rule zeros_not_magic) simp
  from invalid_magic [OF ne, of BigEndian "''a.ktx''"] len ne show ?thesis
    by simp
qed

subsection \<open>C1: truncated mip data\<close>

text \<open>
  C1, as stated: whenever the length prefix of a level would read past the end of the
  source slice, or the size it declares exceeds the bytes that remain, the decode fails
  with \<open>TruncatedMipData\<close>. The second half is false for the last level: the loop
  copies the payload with a slice, which stops at the end of the buffer without raising,
  and nothing reads after the last level. A file with one level that announces 8 bytes
  and holds 6 decodes, with 6 bytes of data and a level of size 8.
\<close>

theorem truncated_last_level_counterexample:
  "unpack_from_I LittleEndian (drop 64 (short_last_level LittleEndian)) 0 = Some 8 \<and>
   length (drop 64 (short_last_level LittleEndian)) - 4 = 6 \<and>
   KTXFile_open LittleEndian ''a.ktx'' (short_last_level LittleEndian) =
     Inr \<lparr> file_name = ''a.ktx'', width = 4, height = 4, depth = 1, mips_level = 1,
           array_element = 1, faces = 1, target = IMAGE_TYPE_2D,
           format = FORMAT_BC4_UNORM_BLOCK,
           data = [1, 2, 3, 4, 5, 6],
           mipmaps = [\<lparr> mip_offset = 0, mip_size = 8, mip_width = 4, mip_height = 4 \<rparr>] \<rparr>"
proof -
  have "unpack_from_I LittleEndian (drop 64 (short_last_level LittleEndian)) 0 = Some 8"
    by (simp add: short_last_level_def eval_defs)
  moreover have "length (drop 64 (short_last_level LittleEndian)) - 4 = 6"
    by (simp add: short_last_level_def eval_defs)
  ultimately show ?thesis
    by (simp only: short_last_level_decodes simp_thms)
qed

text \<open>
  C1, amended: when the first \<open>k\<close> iterations of the loop have run and at iteration
  \<open>k\<close> fewer than 4 bytes are left at the read cursor, or the level is not the last
  one and the size it declares exceeds the bytes left after its prefix, the constructor
  fails with \<open>TruncatedMipData\<close> and no texture is produced. (The header here has
  passed the format and layout checks that come before the loop.) The scenario file, two
  levels with only 6 of the 8 bytes of level 0, fails with \<open>TruncatedMipData\<close> in
  either byte order.
\<close>

theorem truncated_mip_data:
  assumes fmt: "header_format h = Inr f"
    and layout: "unat (number_of_array_elements h) \<le> 1" "unat (number_of_faces h) \<le> 1"
    and k: "k < max (unat (number_of_mipmap_levels h)) 1"
    and reach: "load_mips bo src k
                  (loop_init (unat (pixel_width h)) (max (unat (pixel_height h)) 1)) = Inr st"
    and short: "length src < data_offset st + 4 \<or>
                (Suc k < max (unat (number_of_mipmap_levels h)) 1 \<and>
                 (\<exists>sz. unpack_from_I bo src (data_offset st) = Some sz \<and>
                       length src < data_offset st + 4 + sz))"
  shows "KTXFile_init bo fname h src = Inl TruncatedMipData \<and>
         KTXFile_open bo path (scenario_truncated bo) = Inl TruncatedMipData"
proof
  have "load_mips bo src (max (unat (number_of_mipmap_levels h)) 1)
          (loop_init (unat (pixel_width h)) (max (unat (pixel_height h)) 1)) = Inl TruncatedMipData"
    by (rule load_mips_truncated [OF k reach short])
  then show "KTXFile_init bo fname h src = Inl TruncatedMipData"
    unfolding KTXFile_init_loop [OF fmt layout] by (simp only: sum.case)
  show "KTXFile_open bo path (scenario_truncated bo) = Inl TruncatedMipData"
    by (rule scenario_truncated_fails)
qed

theorem truncated_mip_data_witness:
  "(let h = bytes_to_cstruct LittleEndian (scenario_truncated LittleEndian);
        src = drop 64 (scenario_truncated LittleEndian)
    in header_format h = Inr FORMAT_BC4_UNORM_BLOCK \<and>
       unat (number_of_array_elements h) = 0 \<and> unat (number_of_faces h) = 1 \<and>
       unat (number_of_mipmap_levels h) = 2 \<and>
       unpack_from_I LittleEndian src 0 = Some 8 \<and> length src = 10 \<and>
       KTXFile_init LittleEndian ''a.ktx'' h src = Inl TruncatedMipData) \<and>
   KTXFile_open LittleEndian ''a.ktx'' (scenario_truncated LittleEndian) = Inl TruncatedMipData"
proof -
  let ?h = "bytes_to_cstruct LittleEndian (scenario_truncated LittleEndian)"
  let ?src = "drop 64 (scenario_truncated LittleEndian)"
  have fmt: "header_format ?h = Inr FORMAT_BC4_UNORM_BLOCK"
    by (simp add: scenario_truncated_def eval_defs)
  have arr: "unat (number_of_array_elements ?h) = 0"
    and fcs: "unat (number_of_faces ?h) = 1"
    and mips: "unat (number_of_mipmap_levels ?h) = 2"
    and w: "unat (pixel_width ?h) = 4" and ht: "unat (pixel_height ?h) = 4"
    by (simp_all add: scenario_truncated_def eval_defs)
  have rd: "unpack_from_I LittleEndian ?src 0 = Some 8"
    and len: "length ?src = 10"
    by (simp_all add: scenario_truncated_def eval_defs)
  have layout: "unat (number_of_array_elements ?h) \<le> 1" "unat (number_of_faces ?h) \<le> 1"
    using arr fcs by simp_all
  have k: "0 < max (unat (number_of_mipmap_levels ?h)) 1"
    by simp
  have reach: "load_mips LittleEndian ?src 0
                 (loop_init (unat (pixel_width ?h)) (max (unat (pixel_height ?h)) 1)) =
               Inr (loop_init 4 4)"
    using w ht by simp
  have short: "length ?src < data_offset (loop_init 4 4) + 4 \<or>
     (Suc 0 < max (unat (number_of_mipmap_levels ?h)) 1 \<and>
      (\<exists>sz. unpack_from_I LittleEndian ?src (data_offset (loop_init 4 4)) = Some sz \<and>
            length ?src < data_offset (loop_init 4 4) + 4 + sz))"
    using mips rd len by (simp add: loop_init_def)
  from truncated_mip_data [OF fmt layout k reach short, of "''a.ktx''" "''a.ktx''"]
  show ?thesis
    using fmt arr fcs mips rd len by (simp only: Let_def simp_thms)
qed

subsection \<open>C2: texture arrays and cube maps\<close>

text \<open>
  C2, as stated: a header with 2 array elements, or 2 faces, always fails with
  \<open>UnsupportedTextureLayout\<close>, whatever its other fields. The constructor resolves
  the format before it looks at the layout, so a header of an uncompressed texture array
  fails with \<open>UnsupportedPixelFormat\<close>.
\<close>

theorem unsupported_layout_counterexample:
  "number_of_array_elements uncompressed_array_header = 2 \<and>
   KTXFile_init LittleEndian ''a.ktx'' uncompressed_array_header [] = Inl UnsupportedPixelFormat"
  by (simp add: uncompressed_array_header_def KTXFile_init_def header_format_def Let_def)

text \<open>
  C2, amended: for a header with 2 array elements, or 2 faces, the constructor never
  produces a texture, whatever the source slice holds: it fails with the error of the
  format resolver when the format does not resolve, and with
  \<open>UnsupportedTextureLayout\<close> in every other case.
\<close>

theorem unsupported_layout:
  assumes "number_of_array_elements h = 2 \<or> number_of_faces h = 2"
  shows "KTXFile_init bo fname h src =
           (case header_format h of
              Inl e \<Rightarrow> Inl e
            | Inr fmt \<Rightarrow> Inl UnsupportedTextureLayout)"
proof -
  from assms have "1 < max (unat (number_of_array_elements h)) 1 \<or>
                   1 < max (unat (number_of_faces h)) 1"
    by auto
  then show ?thesis
    unfolding KTXFile_init_def Let_def by (simp only: if_True split: sum.split)
qed

theorem unsupported_layout_witness:
  "number_of_faces cube_map_header = 2 \<and>
   header_format cube_map_header = Inr FORMAT_BC4_UNORM_BLOCK \<and>
   KTXFile_init BigEndian ''a.ktx'' cube_map_header [0, 0, 0, 0] = Inl UnsupportedTextureLayout"
proof -
  have faces2: "number_of_faces cube_map_header = 2"
    by (simp add: cube_map_header_def)
  have fmt: "header_format cube_map_header = Inr FORMAT_BC4_UNORM_BLOCK"
    by (simp add: cube_map_header_def header_format_def GL_TO_VK_FORMATS_def)
  from unsupported_layout [OF disjI2 [OF faces2], of BigEndian "''a.ktx''" "[0, 0, 0, 0]"]
  show ?thesis using faces2 fmt by simp
qed

subsection \<open>C4: the levels are packed\<close>

text \<open>
  C4, as stated: after a successful decode the sizes of the levels add up to the length of
  the data buffer. The file with one level that announces 8 bytes and holds 6 decodes to
  a level of size 8 over a buffer of 6 bytes.
\<close>

theorem mip_levels_packed_counterexample:
  "KTXFile_open LittleEndian ''a.ktx'' (short_last_level LittleEndian) = Inr short_texture \<and>
   sum_list (map mip_size (mipmaps short_texture)) = 8 \<and>
   length (data short_texture) = 6"
  by (simp add: short_last_level_decodes short_texture_def)

text \<open>
  C4, amended: after a successful decode, the offset of level \<open>i\<close> is the sum of the
  sizes of the levels before it. The data buffer is never longer than the sum of all
  sizes, and it is exactly that long if and only if the file holds every byte the levels
  announce: header, key-value block, one 4-byte prefix per level and the announced sizes
  fit in the length of the file.
\<close>

theorem mip_levels_packed:
  assumes "KTXFile_open bo path content = Inr t"
  shows "(\<forall>i<length (mipmaps t).
            mip_offset (mipmaps t ! i) = sum_list (map mip_size (take i (mipmaps t)))) \<and>
         length (data t) \<le> sum_list (map mip_size (mipmaps t)) \<and>
         (length (data t) = sum_list (map mip_size (mipmaps t)) \<longleftrightarrow>
            sizeof_KtxHeader + unat (bytes_of_key_value_data (bytes_to_cstruct bo content)) +
            4 * mips_level t + sum_list (map mip_size (mipmaps t)) \<le> length content)"
proof -
  let ?off = "sizeof_KtxHeader + unat (bytes_of_key_value_data (bytes_to_cstruct bo content))"
  let ?src = "drop ?off content"
  let ?n = "max (unat (number_of_mipmap_levels (bytes_to_cstruct bo content))) 1"
  let ?init = "loop_init (unat (pixel_width (bytes_to_cstruct bo content)))
                 (max (unat (pixel_height (bytes_to_cstruct bo content))) 1)"
  from KTXFile_open_loop [OF assms] obtain st where
    run: "load_mips bo ?src ?n ?init = Inr st"
    and t: "data t = self_data st" "mipmaps t = self_mipmaps st" "mips_level t = ?n"
    by blast
  have packed: "local_offset st = sum_list (map mip_size (self_mipmaps st)) \<and>
    (\<forall>i<length (self_mipmaps st). mip_offset (self_mipmaps st ! i) = sizes_upto (self_mipmaps st) i)"
    by (rule load_mips_packed [OF run]) (simp_all add: loop_init_simps)
  have cursor: "data_offset st = 4 * ?n + local_offset st"
    using load_mips_cursor [OF run] by (simp add: loop_init_simps)
  have len: "if data_offset st \<le> length ?src then length (self_data st) = local_offset st
             else length (self_data st) < local_offset st"
    by (rule load_mips_data_length [OF run]) (simp_all add: loop_init_simps)
  have 1: "\<forall>i<length (mipmaps t).
            mip_offset (mipmaps t ! i) = sum_list (map mip_size (take i (mipmaps t)))"
    using packed t(2) by (simp add: sizes_upto_def)
  have 2: "length (data t) \<le> sum_list (map mip_size (mipmaps t))"
    using len packed t(1,2) by (auto split: if_splits)
  have "length (data t) = sum_list (map mip_size (mipmaps t)) \<longleftrightarrow> data_offset st \<le> length ?src"
    using len packed t(1,2) by (auto split: if_splits)
  also have "\<dots> \<longleftrightarrow> ?off + 4 * mips_level t + sum_list (map mip_size (mipmaps t)) \<le>
                      length content"
  proof -
    have "1 \<le> ?n" by simp
    then show ?thesis
      using cursor packed t(2,3) by (simp only: length_drop) linarith
  qed
  finally show ?thesis using 1 2 by blast
qed

theorem mip_levels_packed_witness:
  "KTXFile_open BigEndian ''a.ktx'' (scenario_full BigEndian) = Inr scenario_texture \<and>
   mip_offset (mipmaps scenario_texture ! 0) = 0 \<and>
   mip_offset (mipmaps scenario_texture ! 1) = 8 \<and>
   sum_list (map mip_size (mipmaps scenario_texture)) = 12 \<and>
   length (data scenario_texture) = 12 \<and>
   length (scenario_full BigEndian) = 64 + 4 * 2 + 12"
proof -
  have dec: "KTXFile_open BigEndian ''a.ktx'' (scenario_full BigEndian) = Inr scenario_texture"
    by (simp add: scenario_full_decodes scenario_texture_def)
  have len: "length (scenario_full BigEndian) = 64 + 4 * 2 + 12"
    by (simp add: scenario_full_def eval_defs)
  from mip_levels_packed [OF dec] dec len show ?thesis
    by (simp add: scenario_texture_def)
qed

subsection \<open>C5: the number and the order of the levels\<close>

text \<open>
  C5: after a successful decode, the mip count of the texture is the header's
  \<open>numberOfMipmapLevels\<close>, or 1 when that is 0, and the list of levels has exactly
  that many entries, in ascending order from level 0: entry \<open>i\<close> has the extents of
  level \<open>i\<close> (the base extents halved \<open>i\<close> times) and the size read from the
  \<open>i\<close>-th length prefix of the file.
\<close>

theorem mip_count:
  assumes "KTXFile_open bo path content = Inr t"
  shows "mips_level t = max (unat (number_of_mipmap_levels (bytes_to_cstruct bo content))) 1 \<and>
         length (mipmaps t) = mips_level t \<and>
         (\<forall>i<length (mipmaps t).
            mip_width (mipmaps t ! i) = width t div 2 ^ i \<and>
            mip_height (mipmaps t ! i) = height t div 2 ^ i \<and>
            unpack_from_I bo
              (drop (sizeof_KtxHeader +
                     unat (bytes_of_key_value_data (bytes_to_cstruct bo content))) content)
              (4 * i + sum_list (map mip_size (take i (mipmaps t)))) =
              Some (mip_size (mipmaps t ! i)))"
proof -
  let ?src = "drop (sizeof_KtxHeader +
                    unat (bytes_of_key_value_data (bytes_to_cstruct bo content))) content"
  let ?n = "max (unat (number_of_mipmap_levels (bytes_to_cstruct bo content))) 1"
  let ?init = "loop_init (unat (pixel_width (bytes_to_cstruct bo content)))
                 (max (unat (pixel_height (bytes_to_cstruct bo content))) 1)"
  from KTXFile_open_loop [OF assms] obtain st where
    run: "load_mips bo ?src ?n ?init = Inr st"
    and t: "mipmaps t = self_mipmaps st" "mips_level t = ?n"
           "width t = mip_extent_width ?init" "height t = mip_extent_height ?init"
    by (auto simp: loop_init_simps)
  have len: "length (mipmaps t) = ?n"
    using load_mips_length [OF run] t(1) by (simp add: loop_init_simps)
  have order: "\<forall>i<length (self_mipmaps st).
      unpack_from_I bo ?src (4 * i + sum_list (map mip_size (take i (self_mipmaps st))))
        = Some (mip_size (self_mipmaps st ! i))"
    by (rule load_mips_file_order [OF run]) (simp_all add: loop_init_simps)
  have ext: "mip_width (mipmaps t ! i) = width t div 2 ^ i \<and>
             mip_height (mipmaps t ! i) = height t div 2 ^ i" if "i < length (mipmaps t)" for i
  proof -
    from that len have "i < ?n" by simp
    from load_mips_nth_new [OF run this] show ?thesis
      unfolding t by (simp add: loop_init_simps)
  qed
  from len t(2) order ext show ?thesis
    unfolding t(1) by simp
qed

theorem mip_count_witness:
  "KTXFile_open LittleEndian ''a.ktx'' (small_chain LittleEndian) = Inr small_chain_texture \<and>
   unat (number_of_mipmap_levels (bytes_to_cstruct LittleEndian (small_chain LittleEndian))) = 3 \<and>
   mips_level small_chain_texture = 3 \<and> length (mipmaps small_chain_texture) = 3 \<and>
   map mip_width (mipmaps small_chain_texture) = [2 div 2 ^ 0, 2 div 2 ^ 1, 2 div 2 ^ 2] \<and>
   map mip_height (mipmaps small_chain_texture) = [1 div 2 ^ 0, 1 div 2 ^ 1, 1 div 2 ^ 2]"
proof -
  have mips: "unat (number_of_mipmap_levels (bytes_to_cstruct LittleEndian (small_chain LittleEndian))) = 3"
    by (simp add: small_chain_def eval_defs)
  from mip_count [OF small_chain_decodes [of LittleEndian]] mips
  show ?thesis
    by (simp add: small_chain_decodes small_chain_texture_def)
qed

subsection \<open>C6: the extents of successive levels\<close>

text \<open>
  C6: after a successful decode, the width and the height of every level after the first
  are those of the level before, divided by 2 and rounded down. Nothing keeps them above
  0: in the example the third level is 0 by 0.
\<close>

theorem mip_extents_halve:
  assumes "KTXFile_open bo path content = Inr t"
    and "0 < i" and "i < length (mipmaps t)"
  shows "mip_width (mipmaps t ! i) = mip_width (mipmaps t ! (i - 1)) div 2 \<and>
         mip_height (mipmaps t ! i) = mip_height (mipmaps t ! (i - 1)) div 2"
proof -
  let ?src = "drop (sizeof_KtxHeader +
                    unat (bytes_of_key_value_data (bytes_to_cstruct bo content))) content"
  let ?n = "max (unat (number_of_mipmap_levels (bytes_to_cstruct bo content))) 1"
  let ?init = "loop_init (unat (pixel_width (bytes_to_cstruct bo content)))
                 (max (unat (pixel_height (bytes_to_cstruct bo content))) 1)"
  from KTXFile_open_loop [OF assms(1)] obtain st where
    run: "load_mips bo ?src ?n ?init = Inr st" and t: "mipmaps t = self_mipmaps st"
    by blast
  from load_mips_length [OF run] t assms(3) have i: "i < ?n"
    by (simp add: loop_init_simps)
  from assms(2) obtain j where j: "i = Suc j"
    by (cases i) simp_all
  with i have "j < ?n" by simp
  from load_mips_nth_new [OF run this]
  have prev: "mip_width (self_mipmaps st ! j) = mip_extent_width ?init div 2 ^ j"
             "mip_height (self_mipmaps st ! j) = mip_extent_height ?init div 2 ^ j"
    by (simp_all only: loop_init_simps list.size add_0)
  from load_mips_nth_new [OF run i]
  have this_level: "mip_width (self_mipmaps st ! Suc j) = mip_extent_width ?init div 2 ^ Suc j"
                   "mip_height (self_mipmaps st ! Suc j) = mip_extent_height ?init div 2 ^ Suc j"
    unfolding j by (simp_all only: loop_init_simps list.size add_0)
  show ?thesis
    unfolding t j by (simp only: prev this_level power_Suc div_twice_pow diff_Suc_1)
qed

theorem mip_extents_halve_witness:
  "KTXFile_open BigEndian ''a.ktx'' (small_chain BigEndian) = Inr small_chain_texture \<and>
   (0 :: nat) < 2 \<and> 2 < length (mipmaps small_chain_texture) \<and>
   mip_width (mipmaps small_chain_texture ! 1) = 1 \<and>
   mip_width (mipmaps small_chain_texture ! 2) = 1 div 2 \<and>
   mip_width (mipmaps small_chain_texture ! 2) = 0 \<and>
   mip_height (mipmaps small_chain_texture ! 1) = 0 \<and>
   mip_height (mipmaps small_chain_texture ! 2) = 0 div 2"
proof -
  have pos: "(0 :: nat) < 2" by simp
  have lt: "2 < length (mipmaps small_chain_texture)"
    by (simp add: small_chain_texture_def)
  from mip_extents_halve [OF small_chain_decodes [of BigEndian] pos lt] pos lt
  show ?thesis
    by (simp add: small_chain_decodes small_chain_texture_def)
qed

subsection \<open>C7: the target reads the raw header\<close>

text \<open>
  C7: for every header, the target is decided by the raw fields: 1D when
  \<open>pixelHeight\<close> is 0, otherwise 3D when \<open>pixelDepth\<close> is above 0, otherwise 2D.
  A texture built from the header carries this target next to the clamped height and
  depth, so a 1D texture has height 1 and depth 1.
\<close>

theorem header_target_raw:
  "header_target h =
     (if unat (pixel_height h) = 0 then IMAGE_TYPE_1D
      else if 0 < unat (pixel_depth h) then IMAGE_TYPE_3D
      else IMAGE_TYPE_2D) \<and>
   (KTXFile_init bo fname h src = Inr t \<longrightarrow>
      target t = header_target h \<and>
      height t = max (unat (pixel_height h)) 1 \<and>
      depth t = max (unat (pixel_depth h)) 1)"
proof
  show "header_target h =
     (if unat (pixel_height h) = 0 then IMAGE_TYPE_1D
      else if 0 < unat (pixel_depth h) then IMAGE_TYPE_3D
      else IMAGE_TYPE_2D)"
    by (simp add: header_target_def unat_eq_zero unat_gt_0 word_neq_0_conv)
  show "KTXFile_init bo fname h src = Inr t \<longrightarrow>
      target t = header_target h \<and>
      height t = max (unat (pixel_height h)) 1 \<and>
      depth t = max (unat (pixel_depth h)) 1"
  proof
    assume "KTXFile_init bo fname h src = Inr t"
    from KTXFile_init_Inr [OF this]
    show "target t = header_target h \<and>
      height t = max (unat (pixel_height h)) 1 \<and>
      depth t = max (unat (pixel_depth h)) 1"
      by auto
  qed
qed

theorem header_target_raw_witness:
  "unat (pixel_height line_header) = 0 \<and> unat (pixel_depth line_header) = 0 \<and>
   KTXFile_init LittleEndian ''a.ktx'' line_header [1, 0, 0, 0, 7] = Inr line_texture \<and>
   header_target line_header = IMAGE_TYPE_1D \<and>
   target line_texture = IMAGE_TYPE_1D \<and> height line_texture = 1 \<and> depth line_texture = 1"
proof -
  have dec: "KTXFile_init LittleEndian ''a.ktx'' line_header [1, 0, 0, 0, 7] = Inr line_texture"
    by (simp add: line_header_def line_texture_def eval_defs)
  have raw: "unat (pixel_height line_header) = 0" "unat (pixel_depth line_header) = 0"
    by (simp_all add: line_header_def)
  from header_target_raw [of line_header LittleEndian "''a.ktx''" "[1, 0, 0, 0, 7]" line_texture]
    dec raw
  show ?thesis by simp
qed

subsection \<open>C8: the linear variant of a format pair\<close>

text \<open>
  C8: for a header that passes the compressed-format check, when the table maps
  \<open>glInternalFormat\<close> to a pair, the resolver returns the first (linear) member of the
  pair; for \<open>glInternalFormat = 0x83F0\<close> that is the BC1 RGB UNORM format and not the
  sRGB one.
\<close>

theorem linear_variant:
  assumes "gl_type h = 0" and "gl_type_size h = 1" and "gl_format h = 0"
  shows "(map_of GL_TO_VK_FORMATS (unat (gl_internal_format h)) = Some (Tuple2 (Some linear) srgb)
            \<longrightarrow> header_format h = Inr linear) \<and>
         (gl_internal_format h = 0x83F0 \<longrightarrow>
            header_format h = Inr FORMAT_BC1_RGB_UNORM_BLOCK \<and>
            header_format h \<noteq> Inr FORMAT_BC1_RGB_SRGB_BLOCK)"
proof
  show "map_of GL_TO_VK_FORMATS (unat (gl_internal_format h)) = Some (Tuple2 (Some linear) srgb)
            \<longrightarrow> header_format h = Inr linear"
    using assms by (simp add: header_format_def)
  show "gl_internal_format h = 0x83F0 \<longrightarrow>
            header_format h = Inr FORMAT_BC1_RGB_UNORM_BLOCK \<and>
            header_format h \<noteq> Inr FORMAT_BC1_RGB_SRGB_BLOCK"
    using assms by (simp add: header_format_def GL_TO_VK_FORMATS_def)
qed

theorem linear_variant_witness:
  "gl_type s3tc_header = 0 \<and> gl_type_size s3tc_header = 1 \<and> gl_format s3tc_header = 0 \<and>
   gl_internal_format s3tc_header = 0x83F0 \<and>
   map_of GL_TO_VK_FORMATS (unat (gl_internal_format s3tc_header)) =
     Some (Tuple2 (Some FORMAT_BC1_RGB_UNORM_BLOCK) (Some FORMAT_BC1_RGB_SRGB_BLOCK)) \<and>
   header_format s3tc_header = Inr FORMAT_BC1_RGB_UNORM_BLOCK"
proof -
  have triplet: "gl_type s3tc_header = 0" "gl_type_size s3tc_header = 1" "gl_format s3tc_header = 0"
    and key: "gl_internal_format s3tc_header = 0x83F0"
    by (simp_all add: s3tc_header_def)
  have entry: "map_of GL_TO_VK_FORMATS (unat (gl_internal_format s3tc_header)) =
     Some (Tuple2 (Some FORMAT_BC1_RGB_UNORM_BLOCK) (Some FORMAT_BC1_RGB_SRGB_BLOCK))"
    by (simp add: s3tc_header_def GL_TO_VK_FORMATS_def)
  from linear_variant [OF triplet, of FORMAT_BC1_RGB_UNORM_BLOCK "Some FORMAT_BC1_RGB_SRGB_BLOCK"]
    triplet key entry
  show ?thesis by simp
qed

subsection \<open>C10: the width is not clamped\<close>

text \<open>
  C10: after a successful decode the width of the texture is the raw \<open>pixelWidth\<close>
  of the header, while height, depth, mip count, array elements and faces are each
  raised to 1 when they are 0. A header with \<open>pixelWidth = 0\<close> gives a texture of
  width 0 whose levels all have width 0.
\<close>

theorem width_not_clamped:
  assumes "KTXFile_open bo path content = Inr t"
  shows "width t = unat (pixel_width (bytes_to_cstruct bo content)) \<and>
         height t = max (unat (pixel_height (bytes_to_cstruct bo content))) 1 \<and>
         depth t = max (unat (pixel_depth (bytes_to_cstruct bo content))) 1 \<and>
         mips_level t = max (unat (number_of_mipmap_levels (bytes_to_cstruct bo content))) 1 \<and>
         array_element t = max (unat (number_of_array_elements (bytes_to_cstruct bo content))) 1 \<and>
         faces t = max (unat (number_of_faces (bytes_to_cstruct bo content))) 1 \<and>
         (pixel_width (bytes_to_cstruct bo content) = 0 \<longrightarrow>
            width t = 0 \<and> (\<forall>m \<in> set (mipmaps t). mip_width m = 0))"
proof -
  let ?h = "bytes_to_cstruct bo content"
  let ?src = "drop (sizeof_KtxHeader + unat (bytes_of_key_value_data ?h)) content"
  let ?n = "max (unat (number_of_mipmap_levels ?h)) 1"
  let ?init = "loop_init (unat (pixel_width ?h)) (max (unat (pixel_height ?h)) 1)"
  from KTXFile_open_Inr [OF assms]
  have init: "KTXFile_init bo path ?h ?src = Inr t"
    by simp
  from KTXFile_init_Inr [OF init] obtain st where
    run: "load_mips bo ?src ?n ?init = Inr st"
    and fields: "width t = unat (pixel_width ?h)"
      "height t = max (unat (pixel_height ?h)) 1"
      "depth t = max (unat (pixel_depth ?h)) 1"
      "mips_level t = ?n"
      "array_element t = max (unat (number_of_array_elements ?h)) 1"
      "faces t = max (unat (number_of_faces ?h)) 1"
    and ms: "mipmaps t = self_mipmaps st"
    by auto
  have zero: "mip_width m = 0" if w: "pixel_width ?h = 0" and m: "m \<in> set (mipmaps t)" for m
  proof -
    from m obtain i where i: "i < length (mipmaps t)" and mi: "m = mipmaps t ! i"
      by (auto simp: in_set_conv_nth)
    from load_mips_length [OF run] i ms have "i < ?n"
      by (simp add: loop_init_simps)
    from load_mips_nth_new [OF run this] w show ?thesis
      unfolding mi ms by (simp add: loop_init_simps)
  qed
  from fields zero show ?thesis
    by simp
qed

theorem width_not_clamped_witness:
  "KTXFile_open BigEndian ''a.ktx'' (zero_width BigEndian) = Inr zero_width_texture \<and>
   pixel_width (bytes_to_cstruct BigEndian (zero_width BigEndian)) = 0 \<and>
   width zero_width_texture = 0 \<and>
   map mip_width (mipmaps zero_width_texture) = [0, 0] \<and>
   height zero_width_texture = 4"
proof -
  have w: "pixel_width (bytes_to_cstruct BigEndian (zero_width BigEndian)) = 0"
    by (simp add: zero_width_def eval_defs)
  from width_not_clamped [OF zero_width_decodes [of BigEndian]] w
  show ?thesis
    by (simp add: zero_width_decodes zero_width_texture_def)
qed

subsection \<open>C9: the key-value block is skipped\<close>

text \<open>
  C9: two files that agree on the 64 bytes of the header and on everything after the
  key-value block, whose length the header gives, decode to the same result: the same
  texture or the same error. The bytes of the key-value block are never read.
\<close>

theorem key_values_ignored:
  assumes "take sizeof_KtxHeader c1 = take sizeof_KtxHeader c2"
    and "drop (sizeof_KtxHeader + unat (bytes_of_key_value_data (bytes_to_cstruct bo c1))) c1 =
         drop (sizeof_KtxHeader + unat (bytes_of_key_value_data (bytes_to_cstruct bo c1))) c2"
  shows "KTXFile_open bo path c1 = KTXFile_open bo path c2"
proof -
  from assms(1) have t64: "take 64 c1 = take 64 c2"
    by (simp add: sizeof_KtxHeader_def)
  have "bytes_to_cstruct bo c1 = bytes_to_cstruct bo (take 64 c1)"
    by (rule bytes_to_cstruct_take [symmetric])
  also have "\<dots> = bytes_to_cstruct bo c2"
    unfolding t64 by (rule bytes_to_cstruct_take)
  finally have hdr: "bytes_to_cstruct bo c1 = bytes_to_cstruct bo c2" .
  from t64 have "length (take 64 c1) = length (take 64 c2)"
    by simp
  then have len: "length c1 < sizeof_KtxHeader \<longleftrightarrow> length c2 < sizeof_KtxHeader"
    by (auto simp: sizeof_KtxHeader_def min_def split: if_splits)
  show ?thesis
    unfolding KTXFile_open_def Let_def using assms(2) len hdr by simp
qed

theorem key_values_ignored_witness:
  "with_key_values LittleEndian [1, 2, 3, 4] \<noteq> with_key_values LittleEndian [9, 8, 7, 6] \<and>
   unat (bytes_of_key_value_data
          (bytes_to_cstruct LittleEndian (with_key_values LittleEndian [1, 2, 3, 4]))) = 4 \<and>
   KTXFile_open LittleEndian ''a.ktx'' (with_key_values LittleEndian [1, 2, 3, 4]) =
   KTXFile_open LittleEndian ''a.ktx'' (with_key_values LittleEndian [9, 8, 7, 6]) \<and>
   KTXFile_open LittleEndian ''a.ktx'' (with_key_values LittleEndian [9, 8, 7, 6]) =
     Inr key_values_texture"
proof -
  let ?a = "with_key_values LittleEndian [1, 2, 3, 4]"
  let ?b = "with_key_values LittleEndian [9, 8, 7, 6]"
  have ne: "?a \<noteq> ?b"
    by (simp add: with_key_values_def ktx_file_def)
  have kv: "unat (bytes_of_key_value_data (bytes_to_cstruct LittleEndian ?a)) = 4"
    by (simp add: with_key_values_def eval_defs)
  have hd: "take sizeof_KtxHeader ?a = take sizeof_KtxHeader ?b"
    by (simp add: with_key_values_def eval_defs)
  have tl: "drop (sizeof_KtxHeader + unat (bytes_of_key_value_data (bytes_to_cstruct LittleEndian ?a))) ?a =
            drop (sizeof_KtxHeader + unat (bytes_of_key_value_data (bytes_to_cstruct LittleEndian ?a))) ?b"
    unfolding kv by (simp add: with_key_values_def eval_defs)
  have dec: "KTXFile_open LittleEndian ''a.ktx'' ?b = Inr key_values_texture"
    by (simp add: with_key_values_def key_values_texture_def eval_defs)
  from key_values_ignored [OF hd tl, of "''a.ktx''"] ne kv dec
  show ?thesis by simp
qed

end
